theory Spec2Isabelle
  imports Complex_Main "HOL-Library.Sublist"
begin

section \<open>JavaScript values as the handlers of server.js see them\<close>

text \<open>
  A JavaScript string is a sequence of UTF-16 code units; a code unit is a natural
  number here. \<open>lit\<close> turns an ASCII literal of the source into its code units.
\<close>

type_synonym jsstring = "nat list"

definition lit :: "string \<Rightarrow> jsstring" where
  "lit s = map of_char s"

text \<open>
  The values a parsed JSON document (or \<open>req.body\<close>, or a provider's reply) holds,
  and \<open>undefined\<close>. A number is a rational: no arithmetic is done on numbers in
  server.js, only the truth test and the conversion to text. An object is the list of its
  own properties, read with \<open>map_of\<close>.
\<close>

datatype jsval =
    Undefined
  | Null
  | Bool bool
  | Num rat
  | Str jsstring
  | Arr "jsval list"
  | Obj "(jsstring \<times> jsval) list"

text \<open>What a \<open>throw\<close> or a rejected promise carries.\<close>

datatype exn =
    TypeError
  | SyntaxError
  | Error jsstring
  | Thrown jsval

text \<open>ToBoolean: \<open>!v\<close> is \<open>\<not> truthy v\<close>.\<close>

fun truthy :: "jsval \<Rightarrow> bool" where
  "truthy Undefined = False"
| "truthy Null = False"
| "truthy (Bool b) = b"
| "truthy (Num q) = (q \<noteq> 0)"
| "truthy (Str s) = (s \<noteq> [])"
| "truthy (Arr xs) = True"
| "truthy (Obj kvs) = True"

definition nullish :: "jsval \<Rightarrow> bool" where
  "nullish v = (v = Undefined \<or> v = Null)"

text \<open>\<open>a || b\<close>\<close>

definition js_or :: "jsval \<Rightarrow> jsval \<Rightarrow> jsval" where
  "js_or a b = (if truthy a then a else b)"

text \<open>
  \<open>v.k\<close> on a value that is neither \<open>null\<close> nor \<open>undefined\<close>, for the property
  names server.js reads (\<open>transcript\<close>, \<open>prompt\<close>, \<open>email\<close>, \<open>summary\<close>,
  \<open>choices\<close>, \<open>message\<close>, \<open>content\<close>, \<open>usage\<close>, \<open>prompt_tokens\<close>,
  \<open>completion_tokens\<close>, \<open>error\<close>, \<open>data\<close>, \<open>id\<close>): none of them is an index,
  \<open>length\<close> or a member of a built-in prototype, so only an object can hold one.
\<close>

fun get_prop :: "jsstring \<Rightarrow> jsval \<Rightarrow> jsval" where
  "get_prop k (Obj kvs) = (case map_of kvs k of Some v \<Rightarrow> v | None \<Rightarrow> Undefined)"
| "get_prop k v = Undefined"

text \<open>\<open>v[0]\<close> on a value that is neither \<open>null\<close> nor \<open>undefined\<close>.\<close>

fun index0 :: "jsval \<Rightarrow> jsval" where
  "index0 (Arr (x # xs)) = x"
| "index0 (Str (c # cs)) = Str [c]"
| "index0 (Obj kvs) = (case map_of kvs (lit ''0'') of Some v \<Rightarrow> v | None \<Rightarrow> Undefined)"
| "index0 v = Undefined"

text \<open>\<open>v.k\<close>: a TypeError on \<open>null\<close> and \<open>undefined\<close>.\<close>

definition get_member :: "jsstring \<Rightarrow> jsval \<Rightarrow> exn + jsval" where
  "get_member k v = (if nullish v then Inl TypeError else Inr (get_prop k v))"

text \<open>\<open>v?.k\<close> and \<open>v?.[0]\<close>\<close>

definition opt_member :: "jsstring \<Rightarrow> jsval \<Rightarrow> jsval" where
  "opt_member k v = (if nullish v then Undefined else get_prop k v)"

definition opt_index0 :: "jsval \<Rightarrow> jsval" where
  "opt_index0 v = (if nullish v then Undefined else index0 v)"

text \<open>
  String.prototype.trim removes the white space and line terminators of ECMAScript at
  both ends: TAB, LF, VT, FF, CR, SP, NBSP, the other space separators of Unicode, LS, PS
  and the byte order mark.
\<close>

definition is_ws :: "nat \<Rightarrow> bool" where
  "is_ws c = (c \<in> {9, 10, 11, 12, 13, 32, 160, 5760, 8232, 8233, 8239, 8287, 12288, 65279}
      \<or> (8192 \<le> c \<and> c \<le> 8202))"

definition trim :: "jsstring \<Rightarrow> jsstring" where
  "trim s = rev (dropWhile is_ws (rev (dropWhile is_ws s)))"

text \<open>
  \<open>v.trim()\<close> on a truthy value: only a string has the method; on a number, a boolean,
  an array or an object of parsed JSON \<open>v.trim\<close> is not a function and the call throws.
\<close>

fun call_trim :: "jsval \<Rightarrow> exn + jsval" where
  "call_trim (Str s) = Inr (Str (trim s))"
| "call_trim v = Inl TypeError"

text \<open>The decimal digits of a natural number (\<open>${res.status}\<close>).\<close>

fun dec :: "nat \<Rightarrow> jsstring" where
  "dec n = (if n < 10 then [48 + n] else dec (n div 10) @ [48 + n mod 10])"

text \<open>
  ToString, as a template literal applies it; the conversion can throw. Number::toString
  is the runtime's and is taken as the parameter \<open>numstr\<close>. An array joins the
  conversions of its elements with commas, \<open>null\<close> and \<open>undefined\<close> elements giving
  nothing. An object is converted by its \<open>toString\<close>: inherited from Object.prototype
  it gives \<open>[object Object]\<close>, but when the object of parsed JSON has a key
  \<open>toString\<close> of its own, the value there is not callable, the inherited \<open>valueOf\<close>
  returns the object itself, and the conversion throws a TypeError.
\<close>

fun join_comma :: "jsstring list \<Rightarrow> jsstring" where
  "join_comma [] = []"
| "join_comma [s] = s"
| "join_comma (s # t # ts) = s @ lit '','' @ join_comma (t # ts)"

text \<open>The first exception among the results, or all their values.\<close>

fun collect :: "(exn + 'a) list \<Rightarrow> exn + 'a list" where
  "collect [] = Inr []"
| "collect (Inl e # rs) = Inl e"
| "collect (Inr v # rs) = (case collect rs of Inl e \<Rightarrow> Inl e | Inr vs \<Rightarrow> Inr (v # vs))"

fun to_string :: "(rat \<Rightarrow> jsstring) \<Rightarrow> jsval \<Rightarrow> exn + jsstring" where
  "to_string numstr Undefined = Inr (lit ''undefined'')"
| "to_string numstr Null = Inr (lit ''null'')"
| "to_string numstr (Bool b) = Inr (if b then lit ''true'' else lit ''false'')"
| "to_string numstr (Num q) = Inr (numstr q)"
| "to_string numstr (Str s) = Inr s"
| "to_string numstr (Arr xs) =
     (case collect
         (map (\<lambda>x. if x = Undefined \<or> x = Null then Inr [] else to_string numstr x) xs) of
        Inl e \<Rightarrow> Inl e
      | Inr ss \<Rightarrow> Inr (join_comma ss))"
| "to_string numstr (Obj kvs) =
     (if map_of kvs (lit ''toString'') = None then Inr (lit ''[object Object]'')
      else Inl TypeError)"

text \<open>
  \<open>${GROQ_API_KEY}\<close>: an environment variable is a string or \<open>undefined\<close>, so its
  conversion does not throw.
\<close>

definition env_text :: "jsstring option \<Rightarrow> jsstring" where
  "env_text x = (case x of None \<Rightarrow> lit ''undefined'' | Some s \<Rightarrow> s)"

text \<open>The number that a string of decimal digits denotes.\<close>

definition read_dec :: "jsstring \<Rightarrow> nat" where
  "read_dec ds = foldl (\<lambda>a d. 10 * a + (d - 48)) 0 ds"

section \<open>Configuration and the outside world\<close>

text \<open>
  The environment variables server.js reads once at startup: a variable is a string or
  is not set.
\<close>

record config =
  env_GROQ_API_KEY :: "jsstring option"
  env_GROQ_MODEL :: "jsstring option"
  env_RESEND_API_KEY :: "jsstring option"
  env_FROM_EMAIL :: "jsstring option"

definition env_var :: "jsstring option \<Rightarrow> jsval" where
  "env_var x = (case x of None \<Rightarrow> Undefined | Some s \<Rightarrow> Str s)"

definition GROQ_MODEL :: "config \<Rightarrow> jsval" where
  "GROQ_MODEL cfg = js_or (env_var (env_GROQ_MODEL cfg)) (Str (lit ''llama-3.1-8b-instant''))"

definition RESEND_API_KEY :: "config \<Rightarrow> jsval" where
  "RESEND_API_KEY cfg = env_var (env_RESEND_API_KEY cfg)"

definition FROM_EMAIL :: "config \<Rightarrow> jsval" where
  "FROM_EMAIL cfg = env_var (env_FROM_EMAIL cfg)"

text \<open>
  The Response that \<open>fetch\<close> resolves to: its status, what \<open>res.text()\<close> gives, and
  what \<open>res.json()\<close> gives (\<open>None\<close> when the body is not JSON and the call rejects with
  a SyntaxError).
\<close>

record response =
  res_status :: nat
  res_text :: jsstring
  res_json :: "jsval option"

definition res_ok :: "response \<Rightarrow> bool" where
  "res_ok res = (200 \<le> res_status res \<and> res_status res \<le> 299)"

text \<open>
  One call of \<open>fetch\<close>; \<open>payload\<close> is the object handed to \<open>JSON.stringify\<close> for
  the body.
\<close>

record fetch_call =
  url :: jsstring
  http_method :: jsstring
  headers :: "(jsstring \<times> jsstring) list"
  payload :: jsval

text \<open>
  What server.js does not contain and calls: the runtime's Number::toString, \<open>fetch\<close>
  (a network failure rejects) and \<open>resend.emails.send\<close> of the Resend SDK, which
  resolves to an object with \<open>data\<close> and \<open>error\<close>.
\<close>

record platform =
  numstr :: "rat \<Rightarrow> jsstring"
  fetch :: "fetch_call \<Rightarrow> exn + response"
  emails_send :: "jsval \<Rightarrow> exn + jsval"

text \<open>What a handler did beside answering: outbound calls, and lines on the console.\<close>

datatype outbound = Fetch fetch_call | EmailsSend jsval

datatype log_arg = LStr jsstring | LVal jsval | LExn exn

datatype log_line = ConsoleLog "log_arg list" | ConsoleError "log_arg list"

text \<open>
  \<open>res.status(n).json(v)\<close>; \<open>res.json(v)\<close> alone answers with status 200.
\<close>

record reply =
  status :: nat
  body :: jsval

record http_result =
  answer :: reply
  calls :: "outbound list"
  console :: "log_line list"

section \<open>The LLM helper\<close>

definition SYSTEM_PROMPT :: jsstring where
  "SYSTEM_PROMPT = lit ''You are a precise meeting notes summarizer.''"

text \<open>
  The template literal converts \<open>transcript\<close> and then \<open>extra || ''\<close>; either
  conversion can throw.
\<close>

definition buildUserPrompt :: "(rat \<Rightarrow> jsstring) \<Rightarrow> jsval \<Rightarrow> jsval \<Rightarrow> exn + jsstring" where
  "buildUserPrompt ns transcript extra =
     (case to_string ns transcript of
        Inl e \<Rightarrow> Inl e
      | Inr t \<Rightarrow>
          (case to_string ns (js_or extra (Str [])) of
             Inl e \<Rightarrow> Inl e
           | Inr x \<Rightarrow>
               Inr (lit ''Transcript:'' @ [10] @ t @ [10, 10] @
                    lit ''Additional instruction from user:'' @ [10] @ x)))"

record groq_result =
  content :: jsval
  promptTokens :: jsval
  completionTokens :: jsval

definition groq_call :: "config \<Rightarrow> jsval \<Rightarrow> fetch_call" where
  "groq_call cfg messages =
     \<lparr> url = lit ''https://api.groq.com/openai/v1/chat/completions'',
       http_method = lit ''POST'',
       headers =
         [(lit ''Authorization'', lit ''Bearer '' @ env_text (env_GROQ_API_KEY cfg)),
          (lit ''Content-Type'', lit ''application/json'')],
       payload = Obj
         [(lit ''model'', GROQ_MODEL cfg),
          (lit ''messages'', messages),
          (lit ''temperature'', Num (2 / 10)),
          (lit ''max_tokens'', Num 1500)] \<rparr>"

text \<open>
  \<open>callGroq\<close>: the calls it made, and the value it returns or the exception it throws.
\<close>

definition callGroq :: "config \<Rightarrow> platform \<Rightarrow> jsval \<Rightarrow> outbound list \<times> (exn + groq_result)" where
  "callGroq cfg pf messages =
     (let req = groq_call cfg messages in
      (case fetch pf req of
         Inl e \<Rightarrow> ([Fetch req], Inl e)
       | Inr res \<Rightarrow>
           if \<not> res_ok res then
             ([Fetch req],
              Inl (Error (lit ''Groq error '' @ dec (res_status res) @ lit '': '' @ res_text res)))
           else
             (case res_json res of
                None \<Rightarrow> ([Fetch req], Inl SyntaxError)
              | Some data \<Rightarrow>
                  (case get_member (lit ''choices'') data of
                     Inl e \<Rightarrow> ([Fetch req], Inl e)
                   | Inr choices \<Rightarrow>
                       (case get_member (lit ''usage'') data of
                          Inl e \<Rightarrow> ([Fetch req], Inl e)
                        | Inr usage \<Rightarrow>
                            ([Fetch req],
                             Inr \<lparr> content =
                                     js_or (opt_member (lit ''content'')
                                        (opt_member (lit ''message'') (opt_index0 choices)))
                                       (Str []),
                                   promptTokens =
                                     js_or (opt_member (lit ''prompt_tokens'') usage) (Num 0),
                                   completionTokens =
                                     js_or (opt_member (lit ''completion_tokens'') usage) (Num 0)
                                 \<rparr>))))))"

section \<open>POST /api/summarize\<close>

text \<open>
  The test \<open>!v || !v.trim()\<close> of both handlers: \<open>trim\<close> is called only on a truthy
  value, and throws unless that value is a string.
\<close>

definition missing_or_blank :: "jsval \<Rightarrow> exn + bool" where
  "missing_or_blank v =
     (if \<not> truthy v then Inr True
      else (case call_trim v of Inl e \<Rightarrow> Inl e | Inr trimmed \<Rightarrow> Inr (\<not> truthy trimmed)))"

text \<open>
  The constant \<open>messages\<close> of the handler: the list handed to \<open>callGroq\<close>, or the
  exception that \<open>buildUserPrompt\<close> throws while the list is built.
\<close>

definition messages :: "(rat \<Rightarrow> jsstring) \<Rightarrow> jsval \<Rightarrow> jsval \<Rightarrow> exn + jsval" where
  "messages ns transcript prompt =
     (case buildUserPrompt ns transcript prompt of
        Inl e \<Rightarrow> Inl e
      | Inr text \<Rightarrow>
          Inr (Arr
            [Obj [(lit ''role'', Str (lit ''system'')),
                  (lit ''content'', Str SYSTEM_PROMPT)],
             Obj [(lit ''role'', Str (lit ''user'')),
                  (lit ''content'', Str text)]]))"

text \<open>The body of the \<open>try\<close> block: the calls made, and the answer or the exception.\<close>

definition summarize_try :: "config \<Rightarrow> platform \<Rightarrow> jsval \<Rightarrow> outbound list \<times> (exn + reply)" where
  "summarize_try cfg pf req_body =
     (let b = js_or req_body (Obj []);
          transcript = get_prop (lit ''transcript'') b;
          prompt = get_prop (lit ''prompt'') b
      in
      (case missing_or_blank transcript of
         Inl e \<Rightarrow> ([], Inl e)
       | Inr True \<Rightarrow>
           ([], Inr \<lparr> status = 400,
                       body = Obj [(lit ''error'', Str (lit ''Transcript is required''))] \<rparr>)
       | Inr False \<Rightarrow>
           (case messages (numstr pf) transcript prompt of
              Inl e \<Rightarrow> ([], Inl e)
            | Inr ms \<Rightarrow>
                (case callGroq cfg pf ms of
                   (cs, Inl e) \<Rightarrow> (cs, Inl e)
                 | (cs, Inr r) \<Rightarrow>
                     (cs,
                      Inr \<lparr> status = 200,
                            body = Obj
                              [(lit ''summary'', content r),
                               (lit ''model'', GROQ_MODEL cfg),
                               (lit ''tokens'', Obj
                                  [(lit ''prompt'', promptTokens r),
                                   (lit ''completion'', completionTokens r)])] \<rparr>)))))"

text \<open>The handler: the \<open>catch\<close> logs the exception and answers 500.\<close>

definition summarize :: "config \<Rightarrow> platform \<Rightarrow> jsval \<Rightarrow> http_result" where
  "summarize cfg pf req_body =
     (case summarize_try cfg pf req_body of
        (cs, Inr r) \<Rightarrow> \<lparr> answer = r, calls = cs, console = [] \<rparr>
      | (cs, Inl err) \<Rightarrow>
          \<lparr> answer = \<lparr> status = 500,
                        body = Obj [(lit ''error'', Str (lit ''Failed to summarize''))] \<rparr>,
            calls = cs,
            console = [ConsoleError [LExn err]] \<rparr>)"

section \<open>POST /api/send-email\<close>

text \<open>
  \<open>resend\<close> is assigned only when RESEND_API_KEY is truthy, and stays \<open>undefined\<close>
  otherwise.
\<close>

datatype resend_client = Resend jsval

definition resend :: "config \<Rightarrow> resend_client option" where
  "resend cfg =
     (if truthy (RESEND_API_KEY cfg) then Some (Resend (RESEND_API_KEY cfg)) else None)"

text \<open>
  The argument of \<open>resend.emails.send\<close>; \<open>text\<close> is what the template literal of
  \<open>html\<close> makes of \<open>summary\<close>.
\<close>

definition send_args :: "config \<Rightarrow> jsval \<Rightarrow> jsstring \<Rightarrow> jsval" where
  "send_args cfg email text = Obj
     [(lit ''from'', FROM_EMAIL cfg),
      (lit ''to'', Arr [email]),
      (lit ''subject'', Str (lit ''Meeting Summary'')),
      (lit ''html'', Str (lit ''<div>'' @ text @ lit ''</div>''))]"

text \<open>
  The body of the \<open>try\<close> block: the calls made, the console lines written, and the
  answer or the exception. The two marks before the console texts are U+2705 and U+274C.
\<close>

definition send_email_try ::
    "config \<Rightarrow> platform \<Rightarrow> jsval \<Rightarrow> outbound list \<times> log_line list \<times> (exn + reply)" where
  "send_email_try cfg pf req_body =
     (let incoming = ConsoleLog [LStr (lit ''Incoming request body:''), LVal req_body];
          b = js_or req_body (Obj []);
          email = get_prop (lit ''email'') b;
          summary = get_prop (lit ''summary'') b
      in
      if \<not> truthy email then
        ([], [incoming],
         Inr \<lparr> status = 400,
               body = Obj [(lit ''error'', Str (lit ''Recipient email required''))] \<rparr>)
      else
        (case missing_or_blank summary of
           Inl e \<Rightarrow> ([], [incoming], Inl e)
         | Inr True \<Rightarrow>
             ([], [incoming],
              Inr \<lparr> status = 400,
                    body = Obj [(lit ''error'', Str (lit ''Summary content required''))] \<rparr>)
         | Inr False \<Rightarrow>
             (case resend cfg of
                None \<Rightarrow>
                  ([], [incoming],
                   Inr \<lparr> status = 500,
                         body = Obj
                           [(lit ''error'', Str (lit ''Email service not configured''))] \<rparr>)
              | Some (Resend key) \<Rightarrow>
                  (let sending = ConsoleLog [LStr (9989 # lit '' Sending email via Resend...'')]
                   in
                   (case to_string (numstr pf) summary of
                      Inl e \<Rightarrow> ([], [incoming, sending], Inl e)
                    | Inr text \<Rightarrow>
                        (let args = send_args cfg email text in
                         (case emails_send pf args of
                            Inl e \<Rightarrow> ([EmailsSend args], [incoming, sending], Inl e)
                          | Inr out \<Rightarrow>
                              (let response =
                                     ConsoleLog [LStr (lit ''Resend response:''), LVal out];
                                   lines = [incoming, sending, response]
                               in
                               (case get_member (lit ''error'') out of
                                  Inl e \<Rightarrow> ([EmailsSend args], lines, Inl e)
                                | Inr err \<Rightarrow>
                                    if truthy err then
                                      ([EmailsSend args], lines, Inl (Thrown err))
                                    else
                                      (case get_member (lit ''data'') out of
                                         Inl e \<Rightarrow> ([EmailsSend args], lines, Inl e)
                                       | Inr data \<Rightarrow>
                                           ([EmailsSend args], lines,
                                            Inr \<lparr> status = 200,
                                                  body = Obj
                                                    [(lit ''ok'', Bool True),
                                                     (lit ''id'',
                                                        js_or (opt_member (lit ''id'') data)
                                                          (Str (lit ''sent'')))] \<rparr>)))))))))))"

definition send_email :: "config \<Rightarrow> platform \<Rightarrow> jsval \<Rightarrow> http_result" where
  "send_email cfg pf req_body =
     (case send_email_try cfg pf req_body of
        (cs, lines, Inr r) \<Rightarrow> \<lparr> answer = r, calls = cs, console = lines \<rparr>
      | (cs, lines, Inl err) \<Rightarrow>
          \<lparr> answer = \<lparr> status = 500,
                        body = Obj [(lit ''error'', Str (lit ''Failed to send email''))] \<rparr>,
            calls = cs,
            console = lines @
              [ConsoleError [LStr (10060 # lit '' Failed to send email:''), LExn err]] \<rparr>)"

section \<open>The rate limiter in front of /api/\<close>

text \<open>
  server.js holds the options of the limiter, \<open>rateLimit({ windowMs: 60 * 1000, max: 20 })\<close>,
  and mounts it on \<open>/api/\<close> before both routes.
\<close>

record limiter_options =
  windowMs :: nat
  max_hits :: nat

definition limiter_opts :: limiter_options where
  "limiter_opts = \<lparr> windowMs = 60 * 1000, max_hits = 20 \<rparr>"

text \<open>
  Modelled from the spec: the middleware that \<open>rateLimit\<close> of express-rate-limit returns
  and its store of counters are not in server.js. The spec describes a fixed window
  counter per client key: a counter is created on the first request of a key, counts the
  requests of that key until the window of \<open>windowMs\<close> milliseconds has passed, and then
  expires; a request beyond \<open>max\<close> in a window gets HTTP 429 and the route handler is
  not reached. Time is the clock in milliseconds.
\<close>

record counter =
  hits :: nat
  resetTime :: nat

type_synonym store = "jsstring \<Rightarrow> counter option"

definition increment :: "limiter_options \<Rightarrow> store \<Rightarrow> jsstring \<Rightarrow> nat \<Rightarrow> counter" where
  "increment opts st k now =
     (case st k of
        None \<Rightarrow> \<lparr> hits = 1, resetTime = now + windowMs opts \<rparr>
      | Some c \<Rightarrow>
          if resetTime c \<le> now then \<lparr> hits = 1, resetTime = now + windowMs opts \<rparr>
          else c \<lparr> hits := hits c + 1 \<rparr>)"

definition limiter :: "store \<Rightarrow> jsstring \<Rightarrow> nat \<Rightarrow> bool \<times> store" where
  "limiter st k now =
     (let c = increment limiter_opts st k now
      in (hits c \<le> max_hits limiter_opts, st(k \<mapsto> c)))"

text \<open>
  A request under \<open>/api/\<close>: the client key, the time it arrives, what it asks for and
  what the body parsers make of it. Lines 9 to 11 of server.js mount \<open>express.json\<close>,
  \<open>express.urlencoded\<close> and \<open>express.static\<close> before the limiter of line 25. A body
  that does not parse, or is larger than 5mb, is answered by the parser with its error
  status (400, 413) and goes no further; a GET for a file under \<open>public\<close> is answered
  by \<open>express.static\<close>. Only the other requests reach the limiter, and only those it
  lets through reach a handler.
\<close>

datatype route = PostSummarize | PostSendEmail | OtherApi

datatype resource = PublicFile | Route route

datatype parse_result = BodyError nat | Parsed jsval

record request =
  client :: jsstring
  at_ms :: nat
  target :: resource
  parsed :: parse_result

datatype api_result =
    ParserAnswer nat
  | StaticFile
  | TooManyRequests
  | Handled http_result
  | NoRoute

definition api :: "config \<Rightarrow> platform \<Rightarrow> store \<Rightarrow> request \<Rightarrow> api_result \<times> store" where
  "api cfg pf st rq =
     (case parsed rq of
        BodyError code \<Rightarrow> (ParserAnswer code, st)
      | Parsed req_body \<Rightarrow>
          (case target rq of
             PublicFile \<Rightarrow> (StaticFile, st)
           | Route r \<Rightarrow>
               (case limiter st (client rq) (at_ms rq) of
                  (False, st') \<Rightarrow> (TooManyRequests, st')
                | (True, st') \<Rightarrow>
                    (case r of
                       PostSummarize \<Rightarrow> (Handled (summarize cfg pf req_body), st')
                     | PostSendEmail \<Rightarrow> (Handled (send_email cfg pf req_body), st')
                     | OtherApi \<Rightarrow> (NoRoute, st')))))"

text \<open>Whether a request gets as far as the limiter, and whether a result came from before it.\<close>

definition reaches_limiter :: "request \<Rightarrow> bool" where
  "reaches_limiter rq =
     (case parsed rq of BodyError code \<Rightarrow> False | Parsed req_body \<Rightarrow> target rq \<noteq> PublicFile)"

fun before_limiter :: "api_result \<Rightarrow> bool" where
  "before_limiter (ParserAnswer code) = True"
| "before_limiter StaticFile = True"
| "before_limiter r = False"

text \<open>The server on a sequence of requests: each client key with the result it got.\<close>

fun serve :: "config \<Rightarrow> platform \<Rightarrow> store \<Rightarrow> request list \<Rightarrow> (jsstring \<times> api_result) list" where
  "serve cfg pf st [] = []"
| "serve cfg pf st (rq # rqs) =
     (case api cfg pf st rq of (r, st') \<Rightarrow> (client rq, r) # serve cfg pf st' rqs)"

definition results_of :: "jsstring \<Rightarrow> (jsstring \<times> api_result) list \<Rightarrow> api_result list" where
  "results_of k rs = map snd (filter (\<lambda>r. fst r = k) rs)"

section \<open>Stubs for concrete runs\<close>

definition stub_config :: "jsstring option \<Rightarrow> config" where
  "stub_config resend_key =
     \<lparr> env_GROQ_API_KEY = Some (lit ''gsk_test''), env_GROQ_MODEL = None,
       env_RESEND_API_KEY = resend_key, env_FROM_EMAIL = Some (lit ''notes@example.com'') \<rparr>"

definition stub_platform :: "exn + response \<Rightarrow> exn + jsval \<Rightarrow> platform" where
  "stub_platform r out =
     \<lparr> numstr = (\<lambda>q. lit ''0''), fetch = (\<lambda>c. r), emails_send = (\<lambda>a. out) \<rparr>"

definition offline :: platform where
  "offline = stub_platform (Inl TypeError) (Inl TypeError)"

text \<open>
  A provider that answers every \<open>fetch\<close> with the given status, text and JSON, and a
  chat completion with content \<open>X\<close> and usage 10/5.
\<close>

definition groq_answers :: "nat \<Rightarrow> jsstring \<Rightarrow> jsval option \<Rightarrow> platform" where
  "groq_answers code txt json =
     stub_platform (Inr \<lparr> res_status = code, res_text = txt, res_json = json \<rparr>) (Inl TypeError)"

definition completion_json :: jsval where
  "completion_json = Obj
     [(lit ''choices'', Arr [Obj [(lit ''message'', Obj [(lit ''content'', Str (lit ''X''))])]]),
      (lit ''usage'', Obj [(lit ''prompt_tokens'', Num 10), (lit ''completion_tokens'', Num 5)])]"

text \<open>An email provider whose \<open>send\<close> resolves to the given object.\<close>

definition resend_answers :: "jsval \<Rightarrow> platform" where
  "resend_answers out = stub_platform (Inl TypeError) (Inr out)"

definition mail_request :: "jsstring \<Rightarrow> jsval" where
  "mail_request summary = Obj [(lit ''email'', Str (lit ''a@b.com'')), (lit ''summary'', Str summary)]"

text \<open>A request of one client to a path under \<open>/api/\<close> at a given time.\<close>

definition probe :: "nat \<Rightarrow> request" where
  "probe t =
     \<lparr> client = lit ''203.0.113.7'', at_ms = t, target = Route OtherApi,
       parsed = Parsed Undefined \<rparr>"

text \<open>A request of the same client whose JSON body is malformed: the parser answers 400.\<close>

definition garbled :: "nat \<Rightarrow> request" where
  "garbled t =
     \<lparr> client = lit ''203.0.113.7'', at_ms = t, target = Route PostSummarize,
       parsed = BodyError 400 \<rparr>"

text \<open>A configuration that sets GROQ_MODEL.\<close>

definition model_config :: "jsstring \<Rightarrow> config" where
  "model_config m = (stub_config None) \<lparr> env_GROQ_MODEL := Some m \<rparr>"

section \<open>Auxiliary facts\<close>

declare dec.simps [simp del]

lemma lit_eq_iff [simp]: "lit a = lit b \<longleftrightarrow> a = b"
  by (simp add: lit_def inj_map_eq_map inj_of_char)

lemma lit_Nil [simp]: "lit [] = []"
  by (simp add: lit_def)

text \<open>A string is blank after \<open>trim\<close> exactly when all its code units are white space.\<close>

lemma trim_Nil_iff: "trim s = [] \<longleftrightarrow> list_all is_ws s"
proof
  assume "trim s = []"
  then have all: "\<forall>x\<in>set (dropWhile is_ws s). is_ws x"
    unfolding trim_def by (simp only: rev_is_Nil_conv dropWhile_eq_Nil_conv set_rev)
  have "dropWhile is_ws s = []"
  proof (rule ccontr)
    assume ne: "dropWhile is_ws s \<noteq> []"
    then have "\<not> is_ws (hd (dropWhile is_ws s))" by (rule hd_dropWhile)
    moreover have "hd (dropWhile is_ws s) \<in> set (dropWhile is_ws s)"
      using ne by (rule hd_in_set)
    ultimately show False using all by blast
  qed
  then show "list_all is_ws s"
    by (simp only: dropWhile_eq_Nil_conv list_all_iff)
next
  assume "list_all is_ws s"
  then have empty: "dropWhile is_ws s = []"
    by (simp only: dropWhile_eq_Nil_conv list_all_iff)
  show "trim s = []"
    unfolding trim_def empty by simp
qed

lemma valid_not_blank: "trim s \<noteq> [] \<Longrightarrow> missing_or_blank (Str s) = Inr False"
  by (auto simp: missing_or_blank_def trim_def)

text \<open>On an environment variable \<open>env_text\<close> is ToString.\<close>

lemma to_string_env_var: "to_string ns (env_var x) = Inr (env_text x)"
  by (cases x) (simp_all add: env_var_def env_text_def)

text \<open>\<open>dec\<close> writes decimal digits, and they read back as the number.\<close>

lemma read_dec_snoc: "read_dec (ds @ [d]) = 10 * read_dec ds + (d - 48)"
  by (simp add: read_dec_def)

lemma read_dec_dec: "read_dec (dec n) = n"
proof (induction n rule: dec.induct)
  case (1 n)
  show ?case
  proof (cases "n < 10")
    case True
    then show ?thesis by (simp add: dec.simps [of n] read_dec_def)
  next
    case False
    with "1" have "read_dec (dec (n div 10)) = n div 10" by simp
    with False show ?thesis
      by (simp add: dec.simps [of n] read_dec_snoc)
  qed
qed

lemma dec_digits: "list_all (\<lambda>d. 48 \<le> d \<and> d \<le> 57) (dec n)"
proof (induction n rule: dec.induct)
  case (1 n)
  show ?case
  proof (cases "n < 10")
    case True
    then show ?thesis by (simp add: dec.simps [of n])
  next
    case False
    with "1" have "list_all (\<lambda>d. 48 \<le> d \<and> d \<le> 57) (dec (n div 10))" by simp
    moreover have "n mod 10 \<le> 9" by simp
    ultimately show ?thesis
      using False by (simp add: dec.simps [of n])
  qed
qed

lemma fst_callGroq: "fst (callGroq cfg pf ms) = [Fetch (groq_call cfg ms)]"
  by (simp add: callGroq_def Let_def split: sum.splits option.splits)

lemma callGroq_not_ok:
  assumes "fetch pf (groq_call cfg ms) = Inr res" and "\<not> res_ok res"
  shows "snd (callGroq cfg pf ms) =
     Inl (Error (lit ''Groq error '' @ dec (res_status res) @ lit '': '' @ res_text res))"
  using assms by (simp add: callGroq_def Let_def)

text \<open>Whatever \<open>callGroq\<close> throws, the handler logs it and answers the same 500.\<close>

lemma summarize_failure:
  assumes "get_prop (lit ''transcript'') (js_or req_body (Obj [])) = Str s"
      and "trim s \<noteq> []"
      and "messages (numstr pf) (Str s)
             (get_prop (lit ''prompt'') (js_or req_body (Obj []))) = Inr ms"
      and "snd (callGroq cfg pf ms) = Inl e"
  shows "summarize cfg pf req_body =
           \<lparr> answer = \<lparr> status = 500,
                         body = Obj [(lit ''error'', Str (lit ''Failed to summarize''))] \<rparr>,
             calls = [Fetch (groq_call cfg ms)],
             console = [ConsoleError [LExn e]] \<rparr>"
  using assms fst_callGroq [of cfg pf ms]
  by (cases "callGroq cfg pf ms")
     (simp add: summarize_def summarize_try_def valid_not_blank Let_def)

text \<open>The prompt for a transcript and an extra that are both text, or with no extra.\<close>

lemma buildUserPrompt_Str:
  "buildUserPrompt ns (Str t) (Str e) =
     Inr (lit ''Transcript:'' @ [10] @ t @ [10, 10] @
          lit ''Additional instruction from user:'' @ [10] @ e)"
  by (simp add: buildUserPrompt_def js_or_def)

lemma buildUserPrompt_Undefined:
  "buildUserPrompt ns (Str t) Undefined =
     Inr (lit ''Transcript:'' @ [10] @ t @ [10, 10] @
          lit ''Additional instruction from user:'' @ [10])"
  by (simp add: buildUserPrompt_def js_or_def)

lemma replicate_20: "replicate 20 x = [x, x, x, x, x, x, x, x, x, x, x, x, x, x, x, x, x, x, x, x]"
  by (simp add: numeral_eq_Suc)

lemma limiter_other: "k' \<noteq> k \<Longrightarrow> snd (limiter st k' now) k = st k"
  by (simp add: limiter_def Let_def)

lemma limiter_live:
  "st k = Some c \<Longrightarrow> now < resetTime c \<Longrightarrow>
     limiter st k now = (hits c + 1 \<le> 20, st(k \<mapsto> c\<lparr>hits := hits c + 1\<rparr>))"
  by (simp add: limiter_def increment_def limiter_opts_def Let_def)

lemma limiter_fresh:
  "st k = None \<or> (\<exists>c. st k = Some c \<and> resetTime c \<le> now) \<Longrightarrow>
     limiter st k now = (True, st(k \<mapsto> \<lparr>hits = 1, resetTime = now + 60 * 1000\<rparr>))"
  by (auto simp: limiter_def increment_def limiter_opts_def Let_def)

lemma api_reached:
  assumes "reaches_limiter rq"
  shows "(fst (api cfg pf st rq) = TooManyRequests) = (\<not> fst (limiter st (client rq) (at_ms rq)))"
    and "snd (api cfg pf st rq) = snd (limiter st (client rq) (at_ms rq))"
    and "\<not> before_limiter (fst (api cfg pf st rq))"
  using assms
  by (cases "limiter st (client rq) (at_ms rq)";
      auto simp: api_def reaches_limiter_def
        split: parse_result.splits resource.splits bool.splits route.splits)+

lemma api_stopped:
  assumes "\<not> reaches_limiter rq"
  shows "snd (api cfg pf st rq) = st" and "before_limiter (fst (api cfg pf st rq))"
  using assms
  by (auto simp: api_def reaches_limiter_def split: parse_result.splits resource.splits)

lemma results_of_serve_Cons:
  "results_of k (serve cfg pf st (rq # rqs)) =
     (if client rq = k then [fst (api cfg pf st rq)] else []) @
     results_of k (serve cfg pf (snd (api cfg pf st rq)) rqs)"
  by (cases "api cfg pf st rq") (simp add: results_of_def)

text \<open>
  Inside a live window of a key whose counter stands at \<open>hits c\<close>, the next requests of
  that key that reach the limiter are refused from the one that would take the counter
  past 20.
\<close>

lemma serve_live_window:
  "st k = Some c \<Longrightarrow> \<forall>r \<in> set rqs. client r = k \<longrightarrow> at_ms r < resetTime c \<Longrightarrow>
     map (\<lambda>r. r = TooManyRequests)
       (filter (\<lambda>r. \<not> before_limiter r) (results_of k (serve cfg pf st rqs))) =
     map (\<lambda>i. 20 \<le> hits c + i)
       [0..<length (filter (\<lambda>r. client r = k \<and> reaches_limiter r) rqs)]"
proof (induction rqs arbitrary: st c)
  case Nil
  then show ?case by (simp add: results_of_def)
next
  case (Cons rq rqs)
  have window: "\<forall>r \<in> set rqs. client r = k \<longrightarrow> at_ms r < resetTime c"
    using Cons.prems(2) by simp
  consider (counted) "client rq = k" "reaches_limiter rq"
    | (stopped) "\<not> reaches_limiter rq"
    | (other) "client rq \<noteq> k" "reaches_limiter rq"
    by blast
  then show ?case
  proof cases
    case counted
    with Cons.prems have live: "at_ms rq < resetTime c" by simp
    let ?c' = "c\<lparr>hits := hits c + 1\<rparr>"
    have lim: "limiter st k (at_ms rq) = (hits c + 1 \<le> 20, st(k \<mapsto> ?c'))"
      using Cons.prems(1) live by (rule limiter_live)
    have st': "snd (api cfg pf st rq) k = Some ?c'"
      using counted lim by (simp add: api_reached(2))
    have rest: "\<forall>r \<in> set rqs. client r = k \<longrightarrow> at_ms r < resetTime ?c'"
      using window by simp
    have ih: "map (\<lambda>r. r = TooManyRequests)
          (filter (\<lambda>r. \<not> before_limiter r)
             (results_of k (serve cfg pf (snd (api cfg pf st rq)) rqs))) =
        map (\<lambda>i. 20 \<le> hits ?c' + i)
          [0..<length (filter (\<lambda>r. client r = k \<and> reaches_limiter r) rqs)]"
      using st' rest by (rule Cons.IH)
    have now: "(fst (api cfg pf st rq) = TooManyRequests) = (20 \<le> hits c)"
      using counted lim by (auto simp: api_reached(1))
    have past: "\<not> before_limiter (fst (api cfg pf st rq))"
      using counted(2) by (rule api_reached(3))
    show ?thesis
      using counted ih now past
      unfolding results_of_serve_Cons by (simp add: map_upt_Suc del: upt_Suc)
  next
    case stopped
    then have "snd (api cfg pf st rq) k = Some c"
      using Cons.prems(1) by (simp add: api_stopped(1))
    then have ih: "map (\<lambda>r. r = TooManyRequests)
          (filter (\<lambda>r. \<not> before_limiter r)
             (results_of k (serve cfg pf (snd (api cfg pf st rq)) rqs))) =
        map (\<lambda>i. 20 \<le> hits c + i)
          [0..<length (filter (\<lambda>r. client r = k \<and> reaches_limiter r) rqs)]"
      using window by (rule Cons.IH)
    have "before_limiter (fst (api cfg pf st rq))"
      using stopped by (rule api_stopped(2))
    then show ?thesis
      using stopped ih unfolding results_of_serve_Cons by simp
  next
    case other
    then have "snd (api cfg pf st rq) k = Some c"
      using Cons.prems(1) by (simp add: api_reached(2) limiter_other)
    then have "map (\<lambda>r. r = TooManyRequests)
          (filter (\<lambda>r. \<not> before_limiter r)
             (results_of k (serve cfg pf (snd (api cfg pf st rq)) rqs))) =
        map (\<lambda>i. 20 \<le> hits c + i)
          [0..<length (filter (\<lambda>r. client r = k \<and> reaches_limiter r) rqs)]"
      using window by (rule Cons.IH)
    then show ?thesis
      using other unfolding results_of_serve_Cons by simp
  qed
qed

section \<open>The summarize handler\<close>

text \<open>
  C1. A request to POST /api/summarize whose \<open>transcript\<close> is absent (or otherwise
  falsy, the empty string included) or is a string that is empty after \<open>trim\<close> (by
  \<open>trim_Nil_iff\<close>, a string of white space only) is answered with HTTP 400 and an
  \<open>error\<close> field, and no outbound call is made.
\<close>

theorem summarize_blank_transcript:
  assumes "t = get_prop (lit ''transcript'') (js_or req_body (Obj []))"
      and "\<not> truthy t \<or> (\<exists>s. t = Str s \<and> trim s = [])"
  shows "answer (summarize cfg pf req_body) =
           \<lparr> status = 400,
             body = Obj [(lit ''error'', Str (lit ''Transcript is required''))] \<rparr>
         \<and> calls (summarize cfg pf req_body) = []"
  using assms
  by (auto simp: summarize_def summarize_try_def missing_or_blank_def Let_def)

text \<open>A transcript of a space, a tab and an ideographic space.\<close>

theorem summarize_blank_transcript_witness:
  "answer (summarize (stub_config None) offline
       (Obj [(lit ''transcript'', Str [32, 9, 12288])])) =
     \<lparr> status = 400, body = Obj [(lit ''error'', Str (lit ''Transcript is required''))] \<rparr>
   \<and> calls (summarize (stub_config None) offline
       (Obj [(lit ''transcript'', Str [32, 9, 12288])])) = []"
proof -
  have field: "Str [32, 9, 12288] =
      get_prop (lit ''transcript'')
        (js_or (Obj [(lit ''transcript'', Str [32, 9, 12288])]) (Obj []))"
    by (simp add: js_or_def)
  have blank: "\<not> truthy (Str [32, 9, 12288]) \<or>
      (\<exists>s. Str [32, 9, 12288] = Str s \<and> trim s = [])"
    by (simp add: trim_def is_ws_def)
  show ?thesis by (rule summarize_blank_transcript [OF field blank])
qed

text \<open>
  C2. When the transcript is a string that is not blank, the message list is built, and
  \<open>callGroq\<close> returns content \<open>X\<close> with usage counts \<open>p\<close> and \<open>c\<close>, the handler
  answers HTTP 200 with exactly \<open>{summary: X, model: M, tokens: {prompt: p, completion:
  c}}\<close>, where \<open>M\<close> is the configured model identifier: the value of GROQ_MODEL in
  the environment when it is set and not empty, and \<open>llama-3.1-8b-instant\<close> otherwise.
\<close>

theorem summarize_success:
  assumes "get_prop (lit ''transcript'') (js_or req_body (Obj [])) = Str s"
      and "trim s \<noteq> []"
      and "messages (numstr pf) (Str s)
             (get_prop (lit ''prompt'') (js_or req_body (Obj []))) = Inr ms"
      and "snd (callGroq cfg pf ms) =
             Inr \<lparr> content = X, promptTokens = p, completionTokens = c \<rparr>"
  shows "answer (summarize cfg pf req_body) =
           \<lparr> status = 200,
             body = Obj
               [(lit ''summary'', X),
                (lit ''model'',
                   Str (case env_GROQ_MODEL cfg of
                          None \<Rightarrow> lit ''llama-3.1-8b-instant''
                        | Some m \<Rightarrow> if m = [] then lit ''llama-3.1-8b-instant'' else m)),
                (lit ''tokens'', Obj [(lit ''prompt'', p), (lit ''completion'', c)])] \<rparr>"
proof -
  have model: "GROQ_MODEL cfg =
      Str (case env_GROQ_MODEL cfg of
             None \<Rightarrow> lit ''llama-3.1-8b-instant''
           | Some m \<Rightarrow> if m = [] then lit ''llama-3.1-8b-instant'' else m)"
    by (simp add: GROQ_MODEL_def env_var_def js_or_def split: option.splits)
  have "answer (summarize cfg pf req_body) =
      \<lparr> status = 200,
        body = Obj [(lit ''summary'', X), (lit ''model'', GROQ_MODEL cfg),
                    (lit ''tokens'', Obj [(lit ''prompt'', p), (lit ''completion'', c)])] \<rparr>"
    using assms
    by (cases "callGroq cfg pf ms")
       (simp add: summarize_def summarize_try_def valid_not_blank Let_def)
  then show ?thesis by (simp only: model)
qed

text \<open>
  GROQ_MODEL is set to \<open>mixtral-8x7b\<close>, the request carries a prompt, and the provider
  returns content \<open>X\<close> with usage 10/5.
\<close>

theorem summarize_success_witness:
  "answer (summarize (model_config (lit ''mixtral-8x7b''))
       (groq_answers 200 [] (Some completion_json))
       (Obj [(lit ''transcript'', Str (lit ''We met.'')),
             (lit ''prompt'', Str (lit ''Be brief.''))])) =
     \<lparr> status = 200,
       body = Obj [(lit ''summary'', Str (lit ''X'')),
                   (lit ''model'', Str (lit ''mixtral-8x7b'')),
                   (lit ''tokens'', Obj [(lit ''prompt'', Num 10), (lit ''completion'', Num 5)])] \<rparr>"
proof -
  let ?cfg = "model_config (lit ''mixtral-8x7b'')"
  let ?body = "Obj [(lit ''transcript'', Str (lit ''We met.'')),
                    (lit ''prompt'', Str (lit ''Be brief.''))]"
  let ?pf = "groq_answers 200 [] (Some completion_json)"
  let ?ms = "Arr [Obj [(lit ''role'', Str (lit ''system'')),
                       (lit ''content'', Str SYSTEM_PROMPT)],
                  Obj [(lit ''role'', Str (lit ''user'')),
                       (lit ''content'',
                          Str (lit ''Transcript:'' @ [10] @ lit ''We met.'' @ [10, 10] @
                               lit ''Additional instruction from user:'' @ [10] @
                               lit ''Be brief.''))]]"
  have field: "get_prop (lit ''transcript'') (js_or ?body (Obj [])) = Str (lit ''We met.'')"
    by (simp add: js_or_def)
  have valid: "trim (lit ''We met.'') \<noteq> []"
    by (simp add: trim_def is_ws_def lit_def)
  have built: "messages (numstr ?pf) (Str (lit ''We met.''))
      (get_prop (lit ''prompt'') (js_or ?body (Obj []))) = Inr ?ms"
    by (simp add: js_or_def messages_def buildUserPrompt_Str)
  have llm: "snd (callGroq ?cfg ?pf ?ms) =
      Inr \<lparr> content = Str (lit ''X''), promptTokens = Num 10, completionTokens = Num 5 \<rparr>"
    by (simp add: callGroq_def groq_answers_def stub_platform_def completion_json_def res_ok_def
        get_member_def opt_member_def opt_index0_def nullish_def js_or_def Let_def)
  have env: "env_GROQ_MODEL ?cfg = Some (lit ''mixtral-8x7b'')"
    by (simp add: model_config_def)
  have set: "lit ''mixtral-8x7b'' \<noteq> []"
    by (simp add: lit_def)
  from summarize_success [OF field valid built llm] show ?thesis
    by (simp add: env set)
qed

text \<open>
  C3. When the upstream response is not 2xx, \<open>callGroq\<close> throws an Error whose message
  is \<open>Groq error\<close>, the status in decimal digits (they read back as the status of the
  response), a colon and the raw body text. The handler, called with a valid transcript
  for which the message list is built, then answers HTTP 500 with the fixed body
  \<open>{error: "Failed to summarize"}\<close>, in which the upstream text does not occur, and the
  Error goes to the console only.
\<close>

theorem upstream_failure:
  assumes "fetch pf (groq_call cfg ms) = Inr res" and "\<not> res_ok res"
  shows "snd (callGroq cfg pf ms) =
           Inl (Error (lit ''Groq error '' @ dec (res_status res) @ lit '': '' @ res_text res))
         \<and> read_dec (dec (res_status res)) = res_status res
         \<and> list_all (\<lambda>d. 48 \<le> d \<and> d \<le> 57) (dec (res_status res))
         \<and> (get_prop (lit ''transcript'') (js_or req_body (Obj [])) = Str s \<and> trim s \<noteq> [] \<and>
            messages (numstr pf) (Str s)
              (get_prop (lit ''prompt'') (js_or req_body (Obj []))) = Inr ms
            \<longrightarrow> answer (summarize cfg pf req_body) =
                  \<lparr> status = 500,
                    body = Obj [(lit ''error'', Str (lit ''Failed to summarize''))] \<rparr>
                \<and> console (summarize cfg pf req_body) =
                  [ConsoleError [LExn (Error
                     (lit ''Groq error '' @ dec (res_status res) @ lit '': '' @ res_text res))]])"
proof -
  let ?e = "Error (lit ''Groq error '' @ dec (res_status res) @ lit '': '' @ res_text res)"
  have thrown: "snd (callGroq cfg pf ms) = Inl ?e"
    using assms by (rule callGroq_not_ok)
  have status: "read_dec (dec (res_status res)) = res_status res"
    by (rule read_dec_dec)
  have digits: "list_all (\<lambda>d. 48 \<le> d \<and> d \<le> 57) (dec (res_status res))"
    by (rule dec_digits)
  have "answer (summarize cfg pf req_body) =
          \<lparr> status = 500, body = Obj [(lit ''error'', Str (lit ''Failed to summarize''))] \<rparr>
        \<and> console (summarize cfg pf req_body) = [ConsoleError [LExn ?e]]"
    if field: "get_prop (lit ''transcript'') (js_or req_body (Obj [])) = Str s"
      and valid: "trim s \<noteq> []"
      and built: "messages (numstr pf) (Str s)
                 (get_prop (lit ''prompt'') (js_or req_body (Obj []))) = Inr ms"
    using summarize_failure [OF field valid built thrown] by simp
  with thrown status digits show ?thesis by blast
qed

text \<open>The provider answers 404 with the text \<open>no such model\<close>.\<close>

theorem upstream_failure_witness:
  "snd (callGroq (stub_config None) (groq_answers 404 (lit ''no such model'') None)
       (Arr [Obj [(lit ''role'', Str (lit ''system'')),
                  (lit ''content'', Str SYSTEM_PROMPT)],
             Obj [(lit ''role'', Str (lit ''user'')),
                  (lit ''content'',
                     Str (lit ''Transcript:'' @ [10] @ lit ''We met.'' @ [10, 10] @
                          lit ''Additional instruction from user:'' @ [10]))]])) =
     Inl (Error (lit ''Groq error 404: no such model''))
   \<and> read_dec (dec 404) = 404
   \<and> answer (summarize (stub_config None) (groq_answers 404 (lit ''no such model'') None)
       (Obj [(lit ''transcript'', Str (lit ''We met.''))])) =
     \<lparr> status = 500, body = Obj [(lit ''error'', Str (lit ''Failed to summarize''))] \<rparr>
   \<and> console (summarize (stub_config None) (groq_answers 404 (lit ''no such model'') None)
       (Obj [(lit ''transcript'', Str (lit ''We met.''))])) =
     [ConsoleError [LExn (Error (lit ''Groq error 404: no such model''))]]"
proof -
  let ?pf = "groq_answers 404 (lit ''no such model'') None"
  let ?body = "Obj [(lit ''transcript'', Str (lit ''We met.''))]"
  let ?ms = "Arr [Obj [(lit ''role'', Str (lit ''system'')),
                       (lit ''content'', Str SYSTEM_PROMPT)],
                  Obj [(lit ''role'', Str (lit ''user'')),
                       (lit ''content'',
                          Str (lit ''Transcript:'' @ [10] @ lit ''We met.'' @ [10, 10] @
                               lit ''Additional instruction from user:'' @ [10]))]]"
  let ?res = "\<lparr> res_status = 404, res_text = lit ''no such model'', res_json = None \<rparr>"
  have resp: "fetch ?pf (groq_call (stub_config None) ?ms) = Inr ?res"
    by (simp add: groq_answers_def stub_platform_def)
  have bad: "\<not> res_ok ?res"
    by (simp add: res_ok_def)
  have field: "get_prop (lit ''transcript'') (js_or ?body (Obj [])) = Str (lit ''We met.'')"
    by (simp add: js_or_def)
  have valid: "trim (lit ''We met.'') \<noteq> []"
    by (simp add: trim_def is_ws_def lit_def)
  have built: "messages (numstr ?pf) (Str (lit ''We met.''))
      (get_prop (lit ''prompt'') (js_or ?body (Obj []))) = Inr ?ms"
    by (simp add: js_or_def messages_def buildUserPrompt_Undefined)
  have msg: "lit ''Groq error '' @ dec 404 @ lit '': '' @ lit ''no such model'' =
      lit ''Groq error 404: no such model''"
    by (simp add: lit_def dec.simps)
  from upstream_failure [OF resp bad, of ?body "lit ''We met.''"] field valid built msg
  show ?thesis by simp
qed

text \<open>
  C10. A \<open>transcript\<close> that is truthy and not a string (a non-zero number, an object, an
  array, \<open>true\<close>) makes \<open>transcript.trim()\<close> throw; the \<open>catch\<close> of the handler
  takes the exception, so the answer is HTTP 500 with \<open>{error: "Failed to summarize"}\<close>
  and not 400, no outbound call is made, and the handler returns.
\<close>

theorem summarize_non_string_transcript:
  assumes "t = get_prop (lit ''transcript'') (js_or req_body (Obj []))"
      and "truthy t" and "\<forall>s. t \<noteq> Str s"
  shows "summarize cfg pf req_body =
           \<lparr> answer = \<lparr> status = 500,
                         body = Obj [(lit ''error'', Str (lit ''Failed to summarize''))] \<rparr>,
             calls = [], console = [ConsoleError [LExn TypeError]] \<rparr>"
proof -
  have "call_trim t = Inl TypeError"
    using assms(3) by (cases t) simp_all
  then show ?thesis
    using assms(1,2)
    by (simp add: summarize_def summarize_try_def missing_or_blank_def Let_def)
qed

text \<open>The transcript is the number 5.\<close>

theorem summarize_non_string_transcript_witness:
  "summarize (stub_config None) offline (Obj [(lit ''transcript'', Num 5)]) =
     \<lparr> answer = \<lparr> status = 500,
                   body = Obj [(lit ''error'', Str (lit ''Failed to summarize''))] \<rparr>,
       calls = [], console = [ConsoleError [LExn TypeError]] \<rparr>"
proof -
  have field: "Num 5 =
      get_prop (lit ''transcript'') (js_or (Obj [(lit ''transcript'', Num 5)]) (Obj []))"
    by (simp add: js_or_def)
  have present: "truthy (Num 5)"
    by simp
  have other: "\<forall>s. Num 5 \<noteq> Str s"
    by simp
  show ?thesis by (rule summarize_non_string_transcript [OF field present other])
qed

section \<open>The LLM client and the prompt\<close>

text \<open>
  C4, as amended. For a 2xx response whose body is JSON and is not \<open>null\<close>, \<open>callGroq\<close>
  returns: as content the value of \<open>choices?.[0]?.message?.content\<close> when that is truthy
  (any non-empty string is) and the empty string otherwise, in particular when the
  content is structurally absent; as token counts the values of
  \<open>usage?.prompt_tokens\<close> and \<open>usage?.completion_tokens\<close> when truthy (any non-zero
  number is) and 0 otherwise, in particular when the field is absent.
\<close>

theorem callGroq_returns:
  assumes "fetch pf (groq_call cfg ms) = Inr res" and "res_ok res"
      and "res_json res = Some data" and "\<not> nullish data"
      and "c = opt_member (lit ''content'')
                 (opt_member (lit ''message'') (opt_index0 (get_prop (lit ''choices'') data)))"
      and "p = opt_member (lit ''prompt_tokens'') (get_prop (lit ''usage'') data)"
      and "q = opt_member (lit ''completion_tokens'') (get_prop (lit ''usage'') data)"
  shows "snd (callGroq cfg pf ms) =
           Inr \<lparr> content = (if truthy c then c else Str []),
                 promptTokens = (if truthy p then p else Num 0),
                 completionTokens = (if truthy q then q else Num 0) \<rparr>"
  using assms
  by (simp add: callGroq_def Let_def get_member_def js_or_def)

text \<open>A body with a first choice and no \<open>usage\<close>: the content comes back, the counts are 0.\<close>

theorem callGroq_returns_witness:
  "snd (callGroq (stub_config None)
       (groq_answers 200 []
          (Some (Obj [(lit ''choices'',
             Arr [Obj [(lit ''message'', Obj [(lit ''content'', Str (lit ''X''))])]])])))
       (Arr [])) =
     Inr \<lparr> content = Str (lit ''X''), promptTokens = Num 0, completionTokens = Num 0 \<rparr>"
proof -
  let ?data = "Obj [(lit ''choices'',
      Arr [Obj [(lit ''message'', Obj [(lit ''content'', Str (lit ''X''))])]])]"
  let ?pf = "groq_answers 200 [] (Some ?data)"
  let ?res = "\<lparr> res_status = 200, res_text = [], res_json = Some ?data \<rparr>"
  have resp: "fetch ?pf (groq_call (stub_config None) (Arr [])) = Inr ?res"
    by (simp add: groq_answers_def stub_platform_def)
  have good: "res_ok ?res"
    by (simp add: res_ok_def)
  have json: "res_json ?res = Some ?data"
    by simp
  have object: "\<not> nullish ?data"
    by (simp add: nullish_def)
  have c: "Str (lit ''X'') = opt_member (lit ''content'')
      (opt_member (lit ''message'') (opt_index0 (get_prop (lit ''choices'') ?data)))"
    by (simp add: opt_member_def opt_index0_def nullish_def)
  have p: "Undefined = opt_member (lit ''prompt_tokens'') (get_prop (lit ''usage'') ?data)"
    by (simp add: opt_member_def nullish_def)
  have q: "Undefined = opt_member (lit ''completion_tokens'') (get_prop (lit ''usage'') ?data)"
    by (simp add: opt_member_def nullish_def)
  from callGroq_returns [OF resp good json object c p q] show ?thesis
    by (simp add: lit_def)
qed

text \<open>
  C4 as stated fails: the body \<open>null\<close> with status 200 is JSON, \<open>data.choices\<close> throws a
  TypeError on it, and \<open>callGroq\<close> returns nothing.
\<close>

theorem callGroq_null_body_counterexample:
  "snd (callGroq (stub_config None) (groq_answers 200 (lit ''null'') (Some Null)) (Arr [])) =
     Inl TypeError"
  by (simp add: callGroq_def groq_answers_def stub_platform_def Let_def res_ok_def
      get_member_def nullish_def)

text \<open>
  C5. For a transcript and an extra that are text, and for an extra that is not
  supplied, the message list is the fixed system message followed by one user message.
  The content of the user message is \<open>Transcript:\<close>, the transcript, the line
  \<open>Additional instruction from user:\<close> and then the extra text as given: nothing when
  the extra is not supplied or is the empty string, and never a default instruction. So
  the transcript is a contiguous part of the content and the extra text ends it.
\<close>

theorem messages_shape:
  "messages ns (Str t) (Str e) =
     Inr (Arr [Obj [(lit ''role'', Str (lit ''system'')),
                    (lit ''content'', Str (lit ''You are a precise meeting notes summarizer.''))],
               Obj [(lit ''role'', Str (lit ''user'')),
                    (lit ''content'',
                       Str (lit ''Transcript:'' @ [10] @ t @ [10, 10] @
                            lit ''Additional instruction from user:'' @ [10] @ e))]])
   \<and> messages ns (Str t) Undefined =
     Inr (Arr [Obj [(lit ''role'', Str (lit ''system'')),
                    (lit ''content'', Str (lit ''You are a precise meeting notes summarizer.''))],
               Obj [(lit ''role'', Str (lit ''user'')),
                    (lit ''content'',
                       Str (lit ''Transcript:'' @ [10] @ t @ [10, 10] @
                            lit ''Additional instruction from user:'' @ [10]))]])
   \<and> (\<exists>u. buildUserPrompt ns (Str t) (Str e) = Inr u \<and> sublist t u \<and> suffix e u)
   \<and> (\<exists>u. buildUserPrompt ns (Str t) Undefined = Inr u \<and> sublist t u \<and>
          suffix (lit ''Additional instruction from user:'' @ [10]) u)"
proof -
  let ?head = "lit ''Transcript:'' @ [10]"
  let ?label = "lit ''Additional instruction from user:'' @ [10]"
  have given: "buildUserPrompt ns (Str t) (Str e) = Inr (?head @ t @ ([10, 10] @ ?label @ e))"
    by (simp add: buildUserPrompt_Str)
  have absent: "buildUserPrompt ns (Str t) Undefined = Inr (?head @ t @ ([10, 10] @ ?label))"
    by (simp add: buildUserPrompt_Undefined)
  have list_given: "messages ns (Str t) (Str e) =
     Inr (Arr [Obj [(lit ''role'', Str (lit ''system'')),
                    (lit ''content'', Str (lit ''You are a precise meeting notes summarizer.''))],
               Obj [(lit ''role'', Str (lit ''user'')),
                    (lit ''content'',
                       Str (lit ''Transcript:'' @ [10] @ t @ [10, 10] @
                            lit ''Additional instruction from user:'' @ [10] @ e))]])"
    by (simp add: messages_def buildUserPrompt_Str SYSTEM_PROMPT_def)
  have list_absent: "messages ns (Str t) Undefined =
     Inr (Arr [Obj [(lit ''role'', Str (lit ''system'')),
                    (lit ''content'', Str (lit ''You are a precise meeting notes summarizer.''))],
               Obj [(lit ''role'', Str (lit ''user'')),
                    (lit ''content'',
                       Str (lit ''Transcript:'' @ [10] @ t @ [10, 10] @
                            lit ''Additional instruction from user:'' @ [10]))]])"
    by (simp add: messages_def buildUserPrompt_Undefined SYSTEM_PROMPT_def)
  have part_given: "sublist t (?head @ t @ ([10, 10] @ ?label @ e))"
    by (rule sublist_appendI)
  have end_given: "suffix e (?head @ t @ ([10, 10] @ ?label @ e))"
    by (simp add: suffix_def)
  have part_absent: "sublist t (?head @ t @ ([10, 10] @ ?label))"
    by (rule sublist_appendI)
  have end_absent: "suffix ?label (?head @ t @ ([10, 10] @ ?label))"
    by (simp add: suffix_def)
  from given part_given end_given
  have ex_given: "\<exists>u. buildUserPrompt ns (Str t) (Str e) = Inr u \<and> sublist t u \<and> suffix e u"
    by blast
  from absent part_absent end_absent
  have ex_absent: "\<exists>u. buildUserPrompt ns (Str t) Undefined = Inr u \<and> sublist t u \<and>
      suffix ?label u"
    by blast
  from list_given list_absent ex_given ex_absent show ?thesis by blast
qed

section \<open>The send-email handler\<close>

text \<open>
  C6. A request to POST /api/send-email is answered with HTTP 400 and an \<open>error\<close>
  field when \<open>email\<close> is missing (falsy), or when \<open>summary\<close> is missing (falsy, the
  empty string included) or is a string that is empty after \<open>trim\<close>; the email client
  is not called.
\<close>

theorem send_email_rejects:
  assumes "email = get_prop (lit ''email'') (js_or req_body (Obj []))"
      and "summary = get_prop (lit ''summary'') (js_or req_body (Obj []))"
      and "\<not> truthy email \<or> \<not> truthy summary \<or> (\<exists>s. summary = Str s \<and> trim s = [])"
  shows "answer (send_email cfg pf req_body) =
           \<lparr> status = 400,
             body = Obj [(lit ''error'',
               Str (if \<not> truthy email then lit ''Recipient email required''
                    else lit ''Summary content required''))] \<rparr>
         \<and> calls (send_email cfg pf req_body) = []"
  using assms
  by (auto simp: send_email_def send_email_try_def missing_or_blank_def Let_def)

text \<open>The request \<open>{email: "a@b.com", summary: ""}\<close>, with a configured provider.\<close>

theorem send_email_rejects_witness:
  "answer (send_email (stub_config (Some (lit ''re_test'')))
       (resend_answers (Obj [(lit ''data'', Obj [(lit ''id'', Str (lit ''msg_1''))])]))
       (mail_request [])) =
     \<lparr> status = 400, body = Obj [(lit ''error'', Str (lit ''Summary content required''))] \<rparr>
   \<and> calls (send_email (stub_config (Some (lit ''re_test'')))
       (resend_answers (Obj [(lit ''data'', Obj [(lit ''id'', Str (lit ''msg_1''))])]))
       (mail_request [])) = []"
proof -
  have email: "Str (lit ''a@b.com'') =
      get_prop (lit ''email'') (js_or (mail_request []) (Obj []))"
    by (simp add: mail_request_def js_or_def)
  have summary: "Str [] = get_prop (lit ''summary'') (js_or (mail_request []) (Obj []))"
    by (simp add: mail_request_def js_or_def)
  have bad: "\<not> truthy (Str (lit ''a@b.com'')) \<or> \<not> truthy (Str []) \<or>
      (\<exists>s. Str [] = Str s \<and> trim s = [])"
    by simp
  from send_email_rejects [OF email summary bad] show ?thesis
    by (simp add: lit_def)
qed

text \<open>
  C7. When RESEND_API_KEY is not set (or is empty), \<open>resend\<close> stays undefined, and a
  request that passes validation is answered with HTTP 500 and the message
  \<open>Email service not configured\<close>, which is not the generic \<open>Failed to send email\<close>;
  no call goes to the email provider.
\<close>

theorem send_email_not_configured:
  assumes "env_RESEND_API_KEY cfg = None \<or> env_RESEND_API_KEY cfg = Some []"
      and "truthy (get_prop (lit ''email'') (js_or req_body (Obj [])))"
      and "get_prop (lit ''summary'') (js_or req_body (Obj [])) = Str s"
      and "trim s \<noteq> []"
  shows "answer (send_email cfg pf req_body) =
           \<lparr> status = 500,
             body = Obj [(lit ''error'', Str (lit ''Email service not configured''))] \<rparr>
         \<and> answer (send_email cfg pf req_body) \<noteq>
           \<lparr> status = 500, body = Obj [(lit ''error'', Str (lit ''Failed to send email''))] \<rparr>
         \<and> calls (send_email cfg pf req_body) = []"
proof -
  have "resend cfg = None"
    using assms(1) by (auto simp: resend_def RESEND_API_KEY_def env_var_def)
  then show ?thesis
    using assms(2-4)
    by (simp add: send_email_def send_email_try_def valid_not_blank Let_def)
qed

theorem send_email_not_configured_witness:
  "answer (send_email (stub_config None) offline (mail_request (lit ''Notes''))) =
     \<lparr> status = 500, body = Obj [(lit ''error'', Str (lit ''Email service not configured''))] \<rparr>
   \<and> answer (send_email (stub_config None) offline (mail_request (lit ''Notes''))) \<noteq>
     \<lparr> status = 500, body = Obj [(lit ''error'', Str (lit ''Failed to send email''))] \<rparr>
   \<and> calls (send_email (stub_config None) offline (mail_request (lit ''Notes''))) = []"
proof -
  have key: "env_RESEND_API_KEY (stub_config None) = None \<or>
      env_RESEND_API_KEY (stub_config None) = Some []"
    by (simp add: stub_config_def)
  have email: "truthy (get_prop (lit ''email'') (js_or (mail_request (lit ''Notes'')) (Obj [])))"
    by (simp add: mail_request_def js_or_def lit_def)
  have summary: "get_prop (lit ''summary'') (js_or (mail_request (lit ''Notes'')) (Obj [])) =
      Str (lit ''Notes'')"
    by (simp add: mail_request_def js_or_def)
  have valid: "trim (lit ''Notes'') \<noteq> []"
    by (simp add: trim_def is_ws_def lit_def)
  show ?thesis by (rule send_email_not_configured [OF key email summary valid])
qed

text \<open>
  C8. With a configured provider and a request that passes validation, when
  \<open>resend.emails.send\<close> resolves to an object whose \<open>error\<close> is falsy, the handler
  answers HTTP 200 with \<open>{ok: true, id: I}\<close>, where \<open>I\<close> is \<open>data?.id\<close> when that
  is truthy (any non-empty id is) and the string \<open>sent\<close> when the id is absent.
\<close>

theorem send_email_success:
  assumes "env_RESEND_API_KEY cfg = Some key" and "key \<noteq> []"
      and "email = get_prop (lit ''email'') (js_or req_body (Obj []))" and "truthy email"
      and "get_prop (lit ''summary'') (js_or req_body (Obj [])) = Str s" and "trim s \<noteq> []"
      and "emails_send pf (send_args cfg email s) = Inr out"
      and "get_member (lit ''error'') out = Inr err" and "\<not> truthy err"
      and "i = opt_member (lit ''id'') (get_prop (lit ''data'') out)"
  shows "answer (send_email cfg pf req_body) =
           \<lparr> status = 200,
             body = Obj [(lit ''ok'', Bool True),
                         (lit ''id'', if truthy i then i else Str (lit ''sent''))] \<rparr>"
proof -
  have "resend cfg = Some (Resend (Str key))"
    using assms(1,2) by (simp add: resend_def RESEND_API_KEY_def env_var_def)
  moreover have "get_member (lit ''data'') out = Inr (get_prop (lit ''data'') out)"
    using assms(8) by (simp add: get_member_def split: if_splits)
  ultimately show ?thesis
    using assms(3-10)
    by (simp add: send_email_def send_email_try_def valid_not_blank Let_def js_or_def)
qed

text \<open>The provider resolves to \<open>{data: {id: "msg_1"}, error: null}\<close>.\<close>

theorem send_email_success_witness:
  "answer (send_email (stub_config (Some (lit ''re_test'')))
       (resend_answers
          (Obj [(lit ''data'', Obj [(lit ''id'', Str (lit ''msg_1''))]), (lit ''error'', Null)]))
       (mail_request (lit ''Notes''))) =
     \<lparr> status = 200,
       body = Obj [(lit ''ok'', Bool True), (lit ''id'', Str (lit ''msg_1''))] \<rparr>"
proof -
  let ?cfg = "stub_config (Some (lit ''re_test''))"
  let ?out = "Obj [(lit ''data'', Obj [(lit ''id'', Str (lit ''msg_1''))]), (lit ''error'', Null)]"
  let ?pf = "resend_answers ?out"
  let ?body = "mail_request (lit ''Notes'')"
  have key: "env_RESEND_API_KEY ?cfg = Some (lit ''re_test'')"
    by (simp add: stub_config_def)
  have set: "lit ''re_test'' \<noteq> []"
    by (simp add: lit_def)
  have email: "Str (lit ''a@b.com'') = get_prop (lit ''email'') (js_or ?body (Obj []))"
    by (simp add: mail_request_def js_or_def)
  have given: "truthy (Str (lit ''a@b.com''))"
    by (simp add: lit_def)
  have summary: "get_prop (lit ''summary'') (js_or ?body (Obj [])) = Str (lit ''Notes'')"
    by (simp add: mail_request_def js_or_def)
  have valid: "trim (lit ''Notes'') \<noteq> []"
    by (simp add: trim_def is_ws_def lit_def)
  have sent: "emails_send ?pf
      (send_args ?cfg (Str (lit ''a@b.com'')) (lit ''Notes'')) = Inr ?out"
    by (simp add: resend_answers_def stub_platform_def)
  have err: "get_member (lit ''error'') ?out = Inr Null"
    by (simp add: get_member_def nullish_def)
  have none: "\<not> truthy Null"
    by simp
  have i: "Str (lit ''msg_1'') = opt_member (lit ''id'') (get_prop (lit ''data'') ?out)"
    by (simp add: opt_member_def nullish_def)
  from send_email_success [OF key set email given summary valid sent err none i]
  show ?thesis by (simp add: lit_def)
qed

section \<open>The rate limiter\<close>

text \<open>
  C9, as amended. Take a request of client key \<open>k\<close> that reaches the limiter and opens
  a window (the key has no counter, or its counter has expired) and any later requests,
  of any keys, among which those of \<open>k\<close> arrive less than 60 seconds after it. Then,
  counting from 0 the requests of \<open>k\<close> that reach the limiter, request \<open>i\<close> is
  refused with HTTP 429 exactly when \<open>20 \<le> i\<close>: the first 20 pass the limiter, the
  21st and every further one get 429 and reach no handler. A request that the body
  parsers or \<open>express.static\<close> answer is not among them: it is not counted and does
  not get 429.
\<close>

theorem rate_limit_window:
  assumes "client rq = k" and "reaches_limiter rq"
      and "st k = None \<or> (\<exists>c. st k = Some c \<and> resetTime c \<le> at_ms rq)"
      and "\<forall>r \<in> set rqs. client r = k \<longrightarrow> at_ms r < at_ms rq + 60 * 1000"
  shows "map (\<lambda>r. r = TooManyRequests)
           (filter (\<lambda>r. \<not> before_limiter r) (results_of k (serve cfg pf st (rq # rqs)))) =
         map (\<lambda>i. 20 \<le> i)
           [0..<Suc (length (filter (\<lambda>r. client r = k \<and> reaches_limiter r) rqs))]
         \<and> list_all (\<lambda>r. r \<noteq> TooManyRequests)
             (filter before_limiter (results_of k (serve cfg pf st (rq # rqs))))"
proof -
  let ?c = "\<lparr>hits = 1, resetTime = at_ms rq + 60 * 1000\<rparr>"
  have lim: "limiter st k (at_ms rq) = (True, st(k \<mapsto> ?c))"
    using assms(3) by (rule limiter_fresh)
  have first: "fst (api cfg pf st rq) \<noteq> TooManyRequests"
    using assms(1,2) lim by (simp add: api_reached(1))
  have past: "\<not> before_limiter (fst (api cfg pf st rq))"
    using assms(2) by (rule api_reached(3))
  have st': "snd (api cfg pf st rq) k = Some ?c"
    using assms(1,2) lim by (simp add: api_reached(2))
  have rest: "\<forall>r \<in> set rqs. client r = k \<longrightarrow> at_ms r < resetTime ?c"
    using assms(4) by simp
  have "map (\<lambda>r. r = TooManyRequests)
          (filter (\<lambda>r. \<not> before_limiter r)
             (results_of k (serve cfg pf (snd (api cfg pf st rq)) rqs))) =
        map (\<lambda>i. 20 \<le> hits ?c + i)
          [0..<length (filter (\<lambda>r. client r = k \<and> reaches_limiter r) rqs)]"
    using st' rest by (rule serve_live_window)
  then have counted: "map (\<lambda>r. r = TooManyRequests)
           (filter (\<lambda>r. \<not> before_limiter r) (results_of k (serve cfg pf st (rq # rqs)))) =
         map (\<lambda>i. 20 \<le> i)
           [0..<Suc (length (filter (\<lambda>r. client r = k \<and> reaches_limiter r) rqs))]"
    using assms(1) first past
    unfolding results_of_serve_Cons by (simp add: map_upt_Suc del: upt_Suc)
  have "r \<noteq> TooManyRequests" if "before_limiter r" for r
    using that by (cases r) simp_all
  then have early: "list_all (\<lambda>r. r \<noteq> TooManyRequests)
      (filter before_limiter (results_of k (serve cfg pf st (rq # rqs))))"
    by (simp add: list_all_iff)
  from counted early show ?thesis by blast
qed

text \<open>
  One client sends a request at time 0, one with a malformed body, and twenty more in
  the last millisecond of the window: of the requests that reach the limiter twenty are
  not refused and then one is.
\<close>

theorem rate_limit_window_witness:
  "map (\<lambda>r. r = TooManyRequests)
     (filter (\<lambda>r. \<not> before_limiter r)
        (results_of (lit ''203.0.113.7'')
           (serve (stub_config None) offline (\<lambda>k. None)
              (probe 0 # garbled 5 # replicate 20 (probe 59999))))) =
   replicate 20 False @ [True]"
proof -
  let ?k = "lit ''203.0.113.7''"
  let ?rqs = "garbled 5 # replicate 20 (probe 59999)"
  have key: "client (probe 0) = ?k"
    by (simp add: probe_def)
  have reaches: "reaches_limiter (probe 0)"
    by (simp add: probe_def reaches_limiter_def)
  have fresh: "(\<lambda>k. None) ?k = None \<or>
      (\<exists>c. (\<lambda>k. None) ?k = Some c \<and> resetTime c \<le> at_ms (probe 0))"
    by simp
  have inside: "\<forall>r \<in> set ?rqs. client r = ?k \<longrightarrow> at_ms r < at_ms (probe 0) + 60 * 1000"
    by (simp add: probe_def garbled_def)
  have count: "length (filter (\<lambda>r. client r = ?k \<and> reaches_limiter r) ?rqs) = 20"
    by (simp add: probe_def garbled_def reaches_limiter_def)
  have flags: "map (\<lambda>i. (20::nat) \<le> i) [0..<Suc 20] = replicate 20 False @ [True]"
    by code_simp
  from rate_limit_window [OF key reaches fresh inside, of "stub_config None" offline]
  show ?thesis unfolding count flags by blast
qed

text \<open>
  C9 as stated fails: after twenty requests of one client in a window, a request of that
  client whose JSON body is malformed is the 21st in the window and is answered 400 by
  the parser, not 429; the limiter does not see it, so the next well-formed request is
  the one that gets 429.
\<close>

theorem rate_limit_malformed_counterexample:
  "results_of (lit ''203.0.113.7'')
     (serve (stub_config None) offline (\<lambda>k. None)
        (replicate 20 (probe 0) @ [garbled 1, probe 2])) =
   replicate 20 NoRoute @ [ParserAnswer 400, TooManyRequests]"
  unfolding replicate_20
  by (simp add: results_of_def api_def limiter_def increment_def limiter_opts_def probe_def
      garbled_def Let_def)

end
